theory Spec2Isabelle
  imports Main
begin

section \<open>Values, sessions and the outside world\<close>

text \<open>
  The values that travel through the Flask session and through the JSON bodies of the
  authentication service: Python's \<open>None\<close>, booleans, integers, strings, lists and
  dictionaries with string keys. A dictionary is an association list read with
  \<open>map_of\<close>. Floating-point numbers are left out of the model.
\<close>

datatype pyval =
    PNone
  | PBool bool
  | PInt int
  | PStr string
  | PList "pyval list"
  | PDict "(string \<times> pyval) list"

text \<open>Python truthiness, as used by \<open>if token:\<close> and \<open>if self._info\<close>.\<close>

fun truthy :: "pyval \<Rightarrow> bool" where
  "truthy PNone = False"
| "truthy (PBool b) = b"
| "truthy (PInt n) = (n \<noteq> 0)"
| "truthy (PStr s) = (s \<noteq> [])"
| "truthy (PList xs) = (xs \<noteq> [])"
| "truthy (PDict kvs) = (kvs \<noteq> [])"

text \<open>\<open>v == False\<close>: besides \<open>False\<close> itself only the integer zero compares equal.\<close>

fun eq_False :: "pyval \<Rightarrow> bool" where
  "eq_False (PBool b) = (\<not> b)"
| "eq_False (PInt n) = (n = 0)"
| "eq_False _ = False"

text \<open>
  A naive \<open>datetime\<close> is a point of a discrete, totally ordered time line; the model
  keeps it as an integer (microseconds).
\<close>

type_synonym datetime = int

text \<open>
  A redirect response built by \<open>redirect(url_for(endpoint, **args))\<close>: the endpoint and
  its query arguments.
\<close>

datatype redirect = Redirect string "(string \<times> string) list"

definition login_redirect :: "string \<Rightarrow> redirect" where
  "login_redirect url = Redirect ''login'' [(''next'', url)]"

text \<open>
  Exceptions. \<open>ConnectionError\<close>, \<open>HTTPError\<close> and \<open>JSONDecodeError\<close> are the
  subclasses of \<open>requests.RequestException\<close> that the modelled calls can raise
  (\<open>JSONDecodeError\<close> is one since requests 2.27). \<open>Unauthorized\<close> and \<open>Forbidden\<close>
  are the HTTP exceptions raised by \<open>abort(401, ...)\<close> and \<open>abort(403, ...)\<close>; the
  description of the latter is a fixed text around \<open>str(min_role)\<close> and
  \<open>str(user.role)\<close>, kept here as the two values. \<open>PyException m\<close> is
  \<open>Exception(f"An error occurred: {m}")\<close>.
\<close>

datatype error =
    ConnectionError
  | HTTPError
  | JSONDecodeError
  | ValueError
  | TypeError
  | AttributeError
  | KeyError
  | Unauthorized string
  | Forbidden int pyval
  | PyException pyval

fun is_RequestException :: "error \<Rightarrow> bool" where
  "is_RequestException ConnectionError = True"
| "is_RequestException HTTPError = True"
| "is_RequestException JSONDecodeError = True"
| "is_RequestException _ = False"

text \<open>
  An HTTP response of the service: its status code and its body decoded as JSON
  (\<open>None\<close> when the body is not JSON, so that \<open>response.json()\<close> raises).
  \<open>requests.post\<close> either raises a transport error or returns a response.
\<close>

record response =
  status_code :: int
  body :: "pyval option"

datatype http_outcome = Raises | Responds response

text \<open>What \<open>logger.error\<close> is called with.\<close>

datatype log_entry =
    An_error_occurred pyval
  | Failed_to_retrieve_user_info error

text \<open>The in-memory fields of a \<open>User\<close>.\<close>

record user =
  u_token :: pyval
  u_expiry :: "datetime option"
  u_info :: pyval
  u_authenticated :: bool

text \<open>
  The mutable state a request works on: the Flask session, the user cached on
  \<open>flask.g\<close>, and two logs of effects, the \<open>requests.post\<close> calls made (URL and JSON
  payload) and the \<open>logger.error\<close> calls. The state is threaded through every
  operation and survives an exception. The operations run inside a request context,
  where the session can be read. \<open>print\<close> and the \<open>DEBUG\<close>-only \<open>logger.info\<close>
  calls are not modelled.
\<close>

record world =
  session :: "string \<rightharpoonup> pyval"
  g_user :: "user option"
  posts :: "(string \<times> pyval) list"
  errlog :: "log_entry list"

text \<open>
  What the code reads from its environment: the answer of the service to a
  \<open>requests.post(url, json=payload)\<close>, the wall clock \<open>datetime.now()\<close>, the library
  function \<open>datetime.strptime(s, "%a, %d %b %Y %H:%M:%S %Z")\<close> (\<open>None\<close> where it raises
  \<open>ValueError\<close>), \<open>int(s)\<close> on a string (\<open>None\<close> where it raises \<open>ValueError\<close>),
  \<open>request.url\<close> and \<open>has_request_context()\<close>.
\<close>

record env =
  requests_post :: "string \<Rightarrow> pyval \<Rightarrow> http_outcome"
  now :: datetime
  strptime :: "string \<Rightarrow> datetime option"
  int_of_str :: "string \<Rightarrow> int option"
  request_url :: string
  has_request_context :: bool

definition AUTH_SERVICE_URL :: string where
  "AUTH_SERVICE_URL = ''https://auth.luova.club''"

section \<open>AuthServiceResponse\<close>

text \<open>\<open>d.get(k)\<close>: \<open>AttributeError\<close> on a value that is not a dictionary.\<close>

fun dict_get :: "pyval \<Rightarrow> string \<Rightarrow> error + pyval option" where
  "dict_get (PDict kvs) k = Inr (map_of kvs k)"
| "dict_get _ k = Inl AttributeError"

text \<open>
  The value of a Python expression that is either a JSON value or a response object.
\<close>

datatype pyobj = Val pyval | Resp redirect

text \<open>
  The property \<open>status_machine\<close>: a redirect response object when the field is
  \<open>"TOKEN_EXPIRED"\<close>, otherwise the field as it is, \<open>"ERROR"\<close> when it is absent.
\<close>

definition status_machine :: "env \<Rightarrow> pyval \<Rightarrow> error + pyobj" where
  "status_machine e j =
     (case dict_get j ''status_machine'' of
        Inl err \<Rightarrow> Inl err
      | Inr v \<Rightarrow>
          if v = Some (PStr ''TOKEN_EXPIRED'') then Inr (Resp (login_redirect (request_url e)))
          else (case v of None \<Rightarrow> Inr (Val (PStr ''ERROR'')) | Some x \<Rightarrow> Inr (Val x)))"

text \<open>The property \<open>message\<close>.\<close>

definition message :: "pyval \<Rightarrow> error + pyval" where
  "message j =
     (case dict_get j ''message'' of
        Inl err \<Rightarrow> Inl err
      | Inr None \<Rightarrow> Inr (PStr ''An error occurred.'')
      | Inr (Some x) \<Rightarrow> Inr x)"

record auth_service_response =
  asr_response :: response
  asr_json :: pyval

text \<open>
  \<open>AuthServiceResponse.__init__\<close>. The redirect computed for \<open>TOKEN_EXPIRED\<close> is
  discarded, so that test has no effect beyond evaluating the property. For
  \<open>INVALID\<close> the key \<open>token\<close> is popped from the session, the key \<open>modified\<close> is set
  and \<open>abort(401)\<close> raises.
\<close>

definition AuthServiceResponse_init ::
  "env \<Rightarrow> response \<Rightarrow> bool \<Rightarrow> world \<Rightarrow> (error + auth_service_response) \<times> world" where
  "AuthServiceResponse_init e r hard_fail w =
     (case body r of
        None \<Rightarrow> (Inl JSONDecodeError, w)
      | Some j \<Rightarrow>
          (case status_machine e j of
             Inl err \<Rightarrow> (Inl err, w)
           | Inr sm \<Rightarrow>
               if sm = Val (PStr ''INVALID'') then
                 (Inl (Unauthorized ''Invalid token. Please log in again.''),
                  w\<lparr>session := ((session w)(''token'' := None))(''modified'' \<mapsto> PBool True)\<rparr>)
               else if status_code r \<noteq> 200 \<and> sm \<noteq> Val (PStr ''OK'') then
                 (case message j of
                    Inl err \<Rightarrow> (Inl err, w)
                  | Inr m \<Rightarrow>
                      if hard_fail then (Inl (PyException m), w)
                      else (Inr \<lparr>asr_response = r, asr_json = j\<rparr>,
                            w\<lparr>errlog := errlog w @ [An_error_occurred m]\<rparr>))
               else (Inr \<lparr>asr_response = r, asr_json = j\<rparr>, w)))"

section \<open>User\<close>

text \<open>\<open>response.raise_for_status()\<close> raises \<open>HTTPError\<close> for a 4xx or 5xx status.\<close>

definition raise_for_status :: "response \<Rightarrow> bool" where
  "raise_for_status r = (400 \<le> status_code r \<and> status_code r < 600)"

text \<open>
  The \<open>except requests.RequestException\<close> handler of \<open>_get_info\<close>: log, and no profile.
\<close>

definition get_info_failed :: "error \<Rightarrow> user \<Rightarrow> world \<Rightarrow> (error + user) \<times> world" where
  "get_info_failed err u w =
     (Inr (u\<lparr>u_info := PNone\<rparr>),
      w\<lparr>errlog := errlog w @ [Failed_to_retrieve_user_info err]\<rparr>)"

text \<open>
  The two branches on \<open>"user_info" in auth_response.json\<close>. The body is a dictionary
  here: the constructor has read \<open>status_machine\<close> from it.
\<close>

definition user_info_of :: "auth_service_response \<Rightarrow> error + pyval" where
  "user_info_of a =
     (case dict_get (asr_json a) ''user_info'' of
        Inl err \<Rightarrow> Inl err
      | Inr None \<Rightarrow> Inr PNone
      | Inr (Some x) \<Rightarrow> Inr x)"

text \<open>\<open>User._get_info\<close>.\<close>

definition get_info :: "env \<Rightarrow> user \<Rightarrow> world \<Rightarrow> (error + user) \<times> world" where
  "get_info e u w =
     (let url = AUTH_SERVICE_URL @ ''/user_info'';
          payload = PDict [(''token'', u_token u)];
          w1 = w\<lparr>posts := posts w @ [(url, payload)]\<rparr>
      in case requests_post e url payload of
           Raises \<Rightarrow> get_info_failed ConnectionError u w1
         | Responds r \<Rightarrow>
             if raise_for_status r then get_info_failed HTTPError u w1
             else (case AuthServiceResponse_init e r False w1 of
                     (Inl err, w2) \<Rightarrow>
                       if is_RequestException err then get_info_failed err u w2
                       else (Inl err, w2)
                   | (Inr a, w2) \<Rightarrow>
                       (case user_info_of a of
                          Inl err \<Rightarrow> (Inl err, w2)
                        | Inr i \<Rightarrow> (Inr (u\<lparr>u_info := i\<rparr>), w2))))"

text \<open>
  The end of \<open>User.__init__\<close>: \<open>if _go_on:\<close> mark the user authenticated and fetch the
  profile. \<open>_start_token_verification\<close> only starts a daemon thread and returns; what
  that thread does later is outside this sequential model.
\<close>

definition init_finish :: "env \<Rightarrow> bool \<Rightarrow> user \<Rightarrow> world \<Rightarrow> (error + user) \<times> world" where
  "init_finish e go_on u w =
     (if go_on then get_info e (u\<lparr>u_authenticated := True\<rparr>) w else (Inr u, w))"

text \<open>
  \<open>User.__init__\<close>. The redirects it computes are discarded. \<open>strptime\<close> raises
  \<open>TypeError\<close> on a session value that is not a string and \<open>ValueError\<close> on a string
  that does not match the format.
\<close>

definition User_init :: "env \<Rightarrow> world \<Rightarrow> (error + user) \<times> world" where
  "User_init e w =
     (let u0 = \<lparr>u_token = PNone, u_expiry = None, u_info = PNone, u_authenticated = False\<rparr>;
          u1 = (case session w ''token'' of None \<Rightarrow> u0 | Some t \<Rightarrow> u0\<lparr>u_token := t\<rparr>);
          go_on = (case session w ''token'' of None \<Rightarrow> False | Some t \<Rightarrow> True)
      in case session w ''expiry'' of
           None \<Rightarrow> init_finish e go_on u1 w
         | Some (PStr s) \<Rightarrow>
             (case strptime e s of
                None \<Rightarrow> (Inl ValueError, w)
              | Some t \<Rightarrow>
                  if t < now e then
                    init_finish e False
                      (u1\<lparr>u_expiry := Some t, u_authenticated := False, u_info := PNone\<rparr>)
                      (w\<lparr>session := (session w)(''logged_in'' \<mapsto> PBool False)\<rparr>)
                  else init_finish e True (u1\<lparr>u_expiry := Some t\<rparr>) w)
         | Some _ \<Rightarrow> (Inl TypeError, w))"

text \<open>The property \<open>role\<close>: \<open>self._info.get("role") if self._info else None\<close>.\<close>

definition role :: "user \<Rightarrow> error + pyval" where
  "role u =
     (if truthy (u_info u) then
        (case dict_get (u_info u) ''role'' of
           Inl err \<Rightarrow> Inl err
         | Inr None \<Rightarrow> Inr PNone
         | Inr (Some x) \<Rightarrow> Inr x)
      else Inr PNone)"

text \<open>
  \<open>User.is_authenticated\<close>. \<open>session.get("logged_in") is None\<close> holds for an absent key
  and for a key holding \<open>None\<close>; \<open>session["logged_in"]\<close> raises \<open>KeyError\<close> on an
  absent key.
\<close>

definition is_authenticated :: "env \<Rightarrow> user \<Rightarrow> world \<Rightarrow> (error + bool) \<times> world" where
  "is_authenticated e u w =
     (if has_request_context e then
        (let w1 = (if session w ''logged_in'' = None \<or> session w ''logged_in'' = Some PNone
                   then w\<lparr>session := ((session w)(''logged_in'' \<mapsto> PBool False))
                                        (''modified'' \<mapsto> PBool True)\<rparr>
                   else w)
         in case session w1 ''logged_in'' of
              None \<Rightarrow> (Inl KeyError, w1)
            | Some v \<Rightarrow> if eq_False v then (Inr False, w1) else (Inr (u_authenticated u), w1))
      else (Inr (u_authenticated u), w))"

section \<open>Route guards\<close>

text \<open>
  \<open>int(v)\<close>: an integer is itself, a boolean is 0 or 1, a string is parsed by the
  library; \<open>None\<close>, lists and dictionaries raise \<open>TypeError\<close>.
\<close>

fun py_int :: "env \<Rightarrow> pyval \<Rightarrow> error + int" where
  "py_int e (PInt n) = Inr n"
| "py_int e (PBool b) = Inr (if b then 1 else 0)"
| "py_int e (PStr s) = (case int_of_str e s of None \<Rightarrow> Inl ValueError | Some n \<Rightarrow> Inr n)"
| "py_int e PNone = Inl TypeError"
| "py_int e (PList xs) = Inl TypeError"
| "py_int e (PDict kvs) = Inl TypeError"

text \<open>
  What a wrapped view returns: the result of calling the wrapped handler, or a
  redirect response.
\<close>

datatype view_result = Call_func | Redirected redirect

text \<open>
  The \<open>else\<close> branch of the wrapper of \<open>role_required\<close>: redirect to the fallback
  endpoint when one is configured, \<open>abort(403)\<close> otherwise.
\<close>

definition role_denied ::
  "int \<Rightarrow> string option \<Rightarrow> pyval \<Rightarrow> world \<Rightarrow> (error + view_result) \<times> world" where
  "role_denied min_role redirect_to r w =
     (case redirect_to of
        Some endpoint \<Rightarrow> (Inr (Redirected (Redirect endpoint [])), w)
      | None \<Rightarrow> (Inl (Forbidden min_role r), w))"

text \<open>The wrapper built by \<open>role_required(min_role, redirect_to)\<close>.\<close>

definition role_required ::
  "env \<Rightarrow> int \<Rightarrow> string option \<Rightarrow> world \<Rightarrow> (error + view_result) \<times> world" where
  "role_required e min_role redirect_to w =
     (case User_init e w of
        (Inl err, w1) \<Rightarrow> (Inl err, w1)
      | (Inr u, w1) \<Rightarrow>
          (case is_authenticated e u w1 of
             (Inl err, w2) \<Rightarrow> (Inl err, w2)
           | (Inr False, w2) \<Rightarrow> (Inr (Redirected (login_redirect (request_url e))), w2)
           | (Inr True, w2) \<Rightarrow>
               (case role u of
                  Inl err \<Rightarrow> (Inl err, w2)
                | Inr r \<Rightarrow>
                    if r = PNone then role_denied min_role redirect_to r w2
                    else (case py_int e r of
                            Inl err \<Rightarrow> (Inl err, w2)
                          | Inr n \<Rightarrow>
                              if min_role \<le> n then (Inr Call_func, w2)
                              else role_denied min_role redirect_to r w2))))"

section \<open>The logout route\<close>

text \<open>
  \<open>_get_user\<close>, behind the proxy \<open>current_user\<close>: the user cached on \<open>flask.g\<close>,
  constructed on first use; \<open>None\<close> outside a request context.
\<close>

definition get_user :: "env \<Rightarrow> world \<Rightarrow> (error + user option) \<times> world" where
  "get_user e w =
     (if has_request_context e then
        (case g_user w of
           Some u \<Rightarrow> (Inr (Some u), w)
         | None \<Rightarrow>
             (case User_init e w of
                (Inl err, w1) \<Rightarrow> (Inl err, w1)
              | (Inr u, w1) \<Rightarrow> (Inr (Some u), w1\<lparr>g_user := Some u\<rparr>)))
      else (Inr None, w))"

text \<open>
  The handlers of the route's \<open>try\<close>: a \<open>RequestException\<close> or an \<open>AttributeError\<close>
  is printed and the route goes on to its \<open>return\<close>; anything else propagates.
\<close>

definition logout_except :: "error \<Rightarrow> world \<Rightarrow> (error + redirect) \<times> world" where
  "logout_except err w =
     (if is_RequestException err \<or> err = AttributeError then (Inr (Redirect ''index'' []), w)
      else (Inl err, w))"

text \<open>
  The part of the \<open>try\<close> block after the external call: clear the session, reset the
  fields of \<open>current_user\<close> (setting an attribute through a proxy of \<open>None\<close> raises
  \<open>AttributeError\<close>), and write \<open>token\<close>, \<open>logged_in\<close> and \<open>modified\<close>.
\<close>

definition logout_clear :: "env \<Rightarrow> world \<Rightarrow> (error + redirect) \<times> world" where
  "logout_clear e w =
     (case get_user e (w\<lparr>session := Map.empty\<rparr>) of
        (Inl err, w1) \<Rightarrow> logout_except err w1
      | (Inr None, w1) \<Rightarrow> logout_except AttributeError w1
      | (Inr (Some u), w1) \<Rightarrow>
          (Inr (Redirect ''index'' []),
           w1\<lparr>g_user := Some (u\<lparr>u_authenticated := False, u_token := PNone,
                                  u_expiry := None, u_info := PNone\<rparr>),
               session := (((session w1)(''token'' \<mapsto> PNone))
                             (''logged_in'' \<mapsto> PBool False))(''modified'' \<mapsto> PBool True)\<rparr>))"

text \<open>
  The view of \<open>/logout\<close>, for the service at \<open>auth_service_url\<close>. The external call is
  made only for a truthy token; \<open>requests.post\<close> and \<open>raise_for_status\<close> stand inside
  the same \<open>try\<close> as the clearing code.
\<close>

definition logout :: "env \<Rightarrow> string \<Rightarrow> world \<Rightarrow> (error + redirect) \<times> world" where
  "logout e auth_service_url w =
     (let token = (case session w ''token'' of None \<Rightarrow> PNone | Some t \<Rightarrow> t);
          url = auth_service_url @ ''/logout'';
          payload = PDict [(''token'', token)]
      in if truthy token then
           (let w1 = w\<lparr>posts := posts w @ [(url, payload)]\<rparr>
            in case requests_post e url payload of
                 Raises \<Rightarrow> logout_except ConnectionError w1
               | Responds r \<Rightarrow>
                   if raise_for_status r then logout_except HTTPError w1
                   else logout_clear e w1)
         else logout_clear e w)"

section \<open>Concrete environments and states\<close>

text \<open>
  An environment in which the service is unreachable, the clock reads 1000, one
  timestamp string per case (before, at and after the clock), and a request for
  \<open>/secret\<close> in a request context.
\<close>

definition example_strptime :: "string \<Rightarrow> datetime option" where
  "example_strptime s =
     (if s = ''Thu, 01 Jan 2026 00:00:00 GMT'' then Some 500
      else if s = ''Fri, 02 Jan 2026 00:00:00 GMT'' then Some 1000
      else if s = ''Sat, 03 Jan 2026 00:00:00 GMT'' then Some 2000
      else None)"

definition example_int_of_str :: "string \<Rightarrow> int option" where
  "example_int_of_str s =
     (if s = ''2'' then Some 2 else if s = ''3'' then Some 3 else if s = ''4'' then Some 4
      else None)"

definition unreachable_env :: env where
  "unreachable_env =
     \<lparr>requests_post = (\<lambda>url payload. Raises), now = 1000, strptime = example_strptime,
      int_of_str = example_int_of_str, request_url = ''/secret'',
      has_request_context = True\<rparr>"

text \<open>The same with a service that answers every call with the given response.\<close>

definition answering_env :: "response \<Rightarrow> env" where
  "answering_env r = unreachable_env\<lparr>requests_post := (\<lambda>url payload. Responds r)\<rparr>"

definition world_of :: "(string \<times> pyval) list \<Rightarrow> world" where
  "world_of kvs = \<lparr>session = map_of kvs, g_user = None, posts = [], errlog = []\<rparr>"


text \<open>
  A session as \<open>/auth_callback\<close> leaves it, with an expiry after the clock of the
  examples, and the answer of the service to \<open>/user_info\<close> for a user of role \<open>k\<close>.
\<close>

definition valid_world :: world where
  "valid_world =
     world_of [(''token'', PStr ''abc''), (''expiry'', PStr ''Sat, 03 Jan 2026 00:00:00 GMT''),
               (''logged_in'', PBool True)]"

definition profile_response :: "int \<Rightarrow> response" where
  "profile_response k =
     \<lparr>status_code = 200,
      body = Some (PDict [(''status_machine'', PStr ''OK''),
                          (''user_info'', PDict [(''username'', PStr ''a''), (''role'', PInt k)])])\<rparr>"

text \<open>
  The session after the \<open>INVALID\<close> path of the response validator has popped the
  token: the expiry and \<open>logged_in\<close> are still there.
\<close>

definition tokenless_world :: world where
  "tokenless_world =
     world_of [(''expiry'', PStr ''Sat, 03 Jan 2026 00:00:00 GMT''), (''logged_in'', PBool True),
               (''modified'', PBool True)]"

text \<open>A logged-in request: token and \<open>logged_in\<close> in the session, the user cached.\<close>

definition logged_in_world :: world where
  "logged_in_world =
     \<lparr>session = map_of [(''token'', PStr ''abc''), (''logged_in'', PBool True)],
      g_user = Some \<lparr>u_token = PStr ''abc'', u_expiry = None,
                     u_info = PDict [(''username'', PStr ''a''), (''role'', PInt 3)],
                     u_authenticated = True\<rparr>,
      posts = [], errlog = []\<rparr>"

text \<open>Sessions whose expiry lies before the clock, and exactly at it.\<close>

definition expired_world :: world where
  "expired_world =
     world_of [(''token'', PStr ''abc''), (''expiry'', PStr ''Thu, 01 Jan 2026 00:00:00 GMT''),
               (''logged_in'', PBool True)]"

definition boundary_world :: world where
  "boundary_world =
     world_of [(''token'', PStr ''abc''), (''expiry'', PStr ''Fri, 02 Jan 2026 00:00:00 GMT'')]"

text \<open>Answers of the service: a rejected token, and a server error.\<close>

definition invalid_response :: response where
  "invalid_response =
     \<lparr>status_code = 200,
      body = Some (PDict [(''status_machine'', PStr ''INVALID''), (''message'', PStr ''no'')])\<rparr>"

definition error_response :: response where
  "error_response =
     \<lparr>status_code = 500,
      body = Some (PDict [(''status_machine'', PStr ''ERROR''), (''message'', PStr ''boom'')])\<rparr>"

lemmas example_defs =
  unreachable_env_def answering_env_def world_of_def valid_world_def profile_response_def
  tokenless_world_def logged_in_world_def example_strptime_def example_int_of_str_def
  expired_world_def boundary_world_def invalid_response_def error_response_def

lemmas user_defs =
  User_init_def init_finish_def get_info_def get_info_failed_def user_info_of_def
  AuthServiceResponse_init_def status_machine_def message_def raise_for_status_def
  AUTH_SERVICE_URL_def login_redirect_def Let_def

section \<open>Facts about the response validator and the profile fetch\<close>

lemma AuthServiceResponse_init_posts:
  "AuthServiceResponse_init e r hf w = (x, w') \<Longrightarrow> posts w' = posts w"
  by (auto simp add: AuthServiceResponse_init_def split: option.splits sum.splits if_splits)

lemma AuthServiceResponse_init_returns:
  "AuthServiceResponse_init e r hf w = (Inr a, w') \<Longrightarrow> session w' = session w"
  by (auto simp add: AuthServiceResponse_init_def split: option.splits sum.splits if_splits)

lemma AuthServiceResponse_init_RequestException:
  "AuthServiceResponse_init e r hf w = (Inl err, w') \<Longrightarrow> is_RequestException err \<Longrightarrow> w' = w"
  by (auto simp add: AuthServiceResponse_init_def split: option.splits sum.splits if_splits)

text \<open>Every run of \<open>_get_info\<close> posts the token to \<open>/user_info\<close>, once.\<close>

lemma get_info_posts:
  "posts (snd (get_info e u w)) =
     posts w @ [(AUTH_SERVICE_URL @ ''/user_info'', PDict [(''token'', u_token u)])]"
  by (auto simp add: get_info_def get_info_failed_def Let_def
      split: http_outcome.splits prod.splits sum.splits
      dest!: AuthServiceResponse_init_posts)

text \<open>
  When \<open>_get_info\<close> returns, it has changed the profile only: token, expiry and the
  authenticated flag are as before, and so is the session.
\<close>

lemma get_info_returns:
  assumes "get_info e u w = (Inr u', w')"
  shows "u_token u' = u_token u \<and> u_expiry u' = u_expiry u
         \<and> u_authenticated u' = u_authenticated u \<and> session w' = session w"
  using assms
  by (auto simp add: get_info_def get_info_failed_def Let_def
      split: http_outcome.splits prod.splits sum.splits if_splits
      dest!: AuthServiceResponse_init_returns AuthServiceResponse_init_RequestException)

section \<open>The User constructor\<close>

text \<open>
  C1. The claim: a session without the key \<open>token\<close> gives \<open>authenticated = false\<close> and
  no profile, whatever \<open>expiry\<close> holds. The constructor does clear \<open>_go_on\<close> for such
  a session, but the \<open>else\<close> of the expiry test sets it again: on the session that the
  \<open>INVALID\<close> path leaves behind (no token, an expiry in the future) and a service
  that answers with a profile, the user comes out authenticated, with that profile,
  after posting the token \<open>None\<close>.
\<close>

theorem User_init_without_token_authenticated:
  "User_init (answering_env (profile_response 3)) tokenless_world =
     (Inr \<lparr>u_token = PNone, u_expiry = Some 2000,
           u_info = PDict [(''username'', PStr ''a''), (''role'', PInt 3)],
           u_authenticated = True\<rparr>,
      tokenless_world\<lparr>posts := [(''https://auth.luova.club/user_info'',
                                  PDict [(''token'', PNone)])]\<rparr>)"
  by (simp add: user_defs example_defs)

text \<open>
  The session that a successful \<open>/logout\<close> writes holds the key \<open>token\<close> with the
  value \<open>None\<close>. The constructor tests the presence of the key, where the route
  \<open>/logout\<close> and the setters of \<open>User\<close> test the value, and marks this user
  authenticated as well.
\<close>

lemma User_init_after_logout_authenticated:
  "fst (User_init unreachable_env
          (world_of [(''token'', PNone), (''logged_in'', PBool False), (''modified'', PBool True)])) =
     Inr \<lparr>u_token = PNone, u_expiry = None, u_info = PNone, u_authenticated = True\<rparr>"
  by (simp add: user_defs example_defs)

text \<open>
  C2, as stated: after the constructor, \<open>authenticated\<close> implies a non-empty token and
  a parsed expiry strictly in the future. Two sessions with the token \<open>"abc"\<close>
  refute the part on the expiry: one without \<open>expiry\<close> (which \<open>/auth_callback\<close>
  writes when the service sends none) is authenticated with no expiry at all, and
  one whose expiry is exactly now is authenticated with an expiry that is not
  strictly in the future.
\<close>

theorem authenticated_without_future_expiry:
  "fst (User_init unreachable_env (world_of [(''token'', PStr ''abc'')])) =
     Inr \<lparr>u_token = PStr ''abc'', u_expiry = None, u_info = PNone, u_authenticated = True\<rparr>
   \<and> fst (User_init unreachable_env boundary_world) =
     Inr \<lparr>u_token = PStr ''abc'', u_expiry = Some 1000, u_info = PNone, u_authenticated = True\<rparr>
   \<and> \<not> now unreachable_env < 1000"
  by (simp add: user_defs example_defs)

text \<open>
  C2, amended: for a session whose \<open>token\<close> is present and non-empty, when the
  constructor returns an authenticated user, the stored token is non-empty, and an
  \<open>expiry\<close> in the session is a string that parsed to a time not earlier than now,
  stored as the user's expiry. When such a session has no \<open>expiry\<close>, the
  constructor marks the user authenticated, with the session's token and no expiry,
  and goes on to the profile fetch; every user it returns is so. Sessions whose
  token is absent, \<open>None\<close> or empty are not spoken of.
\<close>

theorem authenticated_session_invariant:
  assumes "session w ''token'' = Some tok" and "truthy tok"
  shows "(\<forall>u w'. User_init e w = (Inr u, w') \<and> u_authenticated u \<longrightarrow>
            truthy (u_token u) \<and>
            (case session w ''expiry'' of
               None \<Rightarrow> u_expiry u = None
             | Some v \<Rightarrow>
                 (\<exists>s t. v = PStr s \<and> strptime e s = Some t \<and> u_expiry u = Some t
                    \<and> now e \<le> t)))
       \<and> (session w ''expiry'' = None \<longrightarrow>
            User_init e w =
              get_info e
                \<lparr>u_token = tok, u_expiry = None, u_info = PNone, u_authenticated = True\<rparr> w
            \<and> (\<forall>u w'. User_init e w = (Inr u, w') \<longrightarrow>
                  u_authenticated u \<and> u_token u = tok \<and> u_expiry u = None))"
proof -
  have implied: "truthy (u_token u) \<and>
            (case session w ''expiry'' of
               None \<Rightarrow> u_expiry u = None
             | Some v \<Rightarrow>
                 (\<exists>s t. v = PStr s \<and> strptime e s = Some t \<and> u_expiry u = Some t
                    \<and> now e \<le> t))"
    if "User_init e w = (Inr u, w')" "u_authenticated u" for u w'
    using that assms
    by (auto simp add: User_init_def init_finish_def Let_def
        split: option.splits pyval.splits if_splits dest!: get_info_returns)
  have bare: "User_init e w =
      get_info e \<lparr>u_token = tok, u_expiry = None, u_info = PNone, u_authenticated = True\<rparr> w"
    if "session w ''expiry'' = None"
    using that assms by (simp add: User_init_def init_finish_def Let_def)
  have kept: "u_authenticated u \<and> u_token u = tok \<and> u_expiry u = None"
    if "session w ''expiry'' = None" "User_init e w = (Inr u, w')" for u w'
    using that(2) unfolding bare [OF that(1)] by (auto dest!: get_info_returns)
  from implied bare kept show ?thesis by blast
qed

theorem authenticated_session_invariant_witness:
  "truthy (PStr ''abc'')
   \<and> session valid_world ''token'' = Some (PStr ''abc'')
   \<and> session valid_world ''expiry'' = Some (PStr ''Sat, 03 Jan 2026 00:00:00 GMT'')
   \<and> fst (User_init unreachable_env valid_world) =
       Inr \<lparr>u_token = PStr ''abc'', u_expiry = Some 2000, u_info = PNone, u_authenticated = True\<rparr>
   \<and> strptime unreachable_env ''Sat, 03 Jan 2026 00:00:00 GMT'' = Some 2000
   \<and> now unreachable_env \<le> 2000
   \<and> session (world_of [(''token'', PStr ''abc'')]) ''expiry'' = None
   \<and> fst (User_init unreachable_env (world_of [(''token'', PStr ''abc'')])) =
       Inr \<lparr>u_token = PStr ''abc'', u_expiry = None, u_info = PNone, u_authenticated = True\<rparr>"
proof -
  let ?u = "\<lparr>u_token = PStr ''abc'', u_expiry = Some 2000, u_info = PNone, u_authenticated = True\<rparr>"
  let ?after = "valid_world\<lparr>posts := [(''https://auth.luova.club/user_info'',
                                         PDict [(''token'', PStr ''abc'')])],
                            errlog := [Failed_to_retrieve_user_info ConnectionError]\<rparr>"
  let ?bare = "world_of [(''token'', PStr ''abc'')]"
  have full: "truthy (PStr ''abc'')" by simp
  have tok: "session valid_world ''token'' = Some (PStr ''abc'')"
    and ex: "session valid_world ''expiry'' = Some (PStr ''Sat, 03 Jan 2026 00:00:00 GMT'')"
    by (simp_all add: example_defs)
  have tok': "session ?bare ''token'' = Some (PStr ''abc'')"
    and none: "session ?bare ''expiry'' = None"
    by (simp_all add: example_defs)
  have run: "User_init unreachable_env valid_world = (Inr ?u, ?after)"
    by (simp add: user_defs example_defs)
  have auth: "u_authenticated ?u" by simp
  from authenticated_session_invariant [OF tok full, of unreachable_env] run auth
  have "case session valid_world ''expiry'' of
          None \<Rightarrow> u_expiry ?u = None
        | Some v \<Rightarrow>
            (\<exists>s t. v = PStr s \<and> strptime unreachable_env s = Some t \<and> u_expiry ?u = Some t
               \<and> now unreachable_env \<le> t)"
    by blast
  then have parsed: "strptime unreachable_env ''Sat, 03 Jan 2026 00:00:00 GMT'' = Some 2000
        \<and> now unreachable_env \<le> 2000"
    by (simp add: ex)
  from authenticated_session_invariant [OF tok' full, of unreachable_env] none
  have "User_init unreachable_env ?bare =
      get_info unreachable_env
        \<lparr>u_token = PStr ''abc'', u_expiry = None, u_info = PNone, u_authenticated = True\<rparr> ?bare"
    by blast
  then have lone: "fst (User_init unreachable_env ?bare) =
      Inr \<lparr>u_token = PStr ''abc'', u_expiry = None, u_info = PNone, u_authenticated = True\<rparr>"
    by (simp add: get_info_def get_info_failed_def Let_def example_defs)
  from full tok ex run parsed none lone show ?thesis by simp
qed

text \<open>
  C3. For a session with a token and an expiry that parses to a time strictly before
  now, the constructor returns an unauthenticated user without a profile and sets
  \<open>logged_in\<close> to false in the session. The test is \<open>expiry < now\<close>: at
  \<open>expiry = now\<close> the session is not expired, the profile fetch is made, a user that
  is returned is authenticated, and \<open>logged_in\<close> is left as it was.
\<close>

theorem expired_session_not_authenticated:
  assumes "session w ''token'' = Some tok"
      and "session w ''expiry'' = Some (PStr s)"
      and "strptime e s = Some t"
  shows "(t < now e \<longrightarrow>
            User_init e w =
              (Inr \<lparr>u_token = tok, u_expiry = Some t, u_info = PNone, u_authenticated = False\<rparr>,
               w\<lparr>session := (session w)(''logged_in'' \<mapsto> PBool False)\<rparr>))
       \<and> (t = now e \<longrightarrow>
            posts (snd (User_init e w)) =
              posts w @ [(AUTH_SERVICE_URL @ ''/user_info'', PDict [(''token'', tok)])]
            \<and> (\<forall>u w'. User_init e w = (Inr u, w') \<longrightarrow>
                 u_authenticated u \<and> session w' ''logged_in'' = session w ''logged_in''))"
  using assms
  by (auto simp add: User_init_def init_finish_def Let_def get_info_posts
      dest!: get_info_returns)

theorem expired_session_not_authenticated_witness:
  "(500::int) < now unreachable_env
   \<and> User_init unreachable_env expired_world =
       (Inr \<lparr>u_token = PStr ''abc'', u_expiry = Some 500, u_info = PNone, u_authenticated = False\<rparr>,
        expired_world\<lparr>session := (session expired_world)(''logged_in'' \<mapsto> PBool False)\<rparr>)
   \<and> (1000::int) = now unreachable_env
   \<and> posts (snd (User_init unreachable_env boundary_world)) =
       [(''https://auth.luova.club/user_info'', PDict [(''token'', PStr ''abc'')])]
   \<and> fst (User_init unreachable_env boundary_world) =
       Inr \<lparr>u_token = PStr ''abc'', u_expiry = Some 1000, u_info = PNone, u_authenticated = True\<rparr>
   \<and> u_authenticated
       \<lparr>u_token = PStr ''abc'', u_expiry = Some 1000, u_info = PNone, u_authenticated = True\<rparr>"
proof -
  have past: "(500::int) < now unreachable_env" and same: "(1000::int) = now unreachable_env"
    by (simp_all add: example_defs)
  have tok: "session expired_world ''token'' = Some (PStr ''abc'')"
    and ex: "session expired_world ''expiry'' = Some (PStr ''Thu, 01 Jan 2026 00:00:00 GMT'')"
    and parsed: "strptime unreachable_env ''Thu, 01 Jan 2026 00:00:00 GMT'' = Some 500"
    by (simp_all add: example_defs)
  have tok': "session boundary_world ''token'' = Some (PStr ''abc'')"
    and ex': "session boundary_world ''expiry'' = Some (PStr ''Fri, 02 Jan 2026 00:00:00 GMT'')"
    and parsed': "strptime unreachable_env ''Fri, 02 Jan 2026 00:00:00 GMT'' = Some 1000"
    by (simp_all add: example_defs)
  let ?u = "\<lparr>u_token = PStr ''abc'', u_expiry = Some 1000, u_info = PNone, u_authenticated = True\<rparr>"
  have run: "User_init unreachable_env boundary_world =
      (Inr ?u, boundary_world\<lparr>posts := [(''https://auth.luova.club/user_info'',
                                          PDict [(''token'', PStr ''abc'')])],
                               errlog := [Failed_to_retrieve_user_info ConnectionError]\<rparr>)"
    by (simp add: user_defs example_defs)
  have empty: "posts boundary_world = []"
    by (simp add: example_defs)
  from expired_session_not_authenticated [OF tok ex parsed] past
  have expired: "User_init unreachable_env expired_world =
       (Inr \<lparr>u_token = PStr ''abc'', u_expiry = Some 500, u_info = PNone, u_authenticated = False\<rparr>,
        expired_world\<lparr>session := (session expired_world)(''logged_in'' \<mapsto> PBool False)\<rparr>)"
    by blast
  from expired_session_not_authenticated [OF tok' ex' parsed'] same
  have "posts (snd (User_init unreachable_env boundary_world)) =
          posts boundary_world @ [(AUTH_SERVICE_URL @ ''/user_info'', PDict [(''token'', PStr ''abc'')])]"
    and "\<forall>u w'. User_init unreachable_env boundary_world = (Inr u, w') \<longrightarrow> u_authenticated u"
    by blast+
  with run empty have "posts (snd (User_init unreachable_env boundary_world)) =
         [(''https://auth.luova.club/user_info'', PDict [(''token'', PStr ''abc'')])]"
    and "u_authenticated ?u"
    by (simp_all add: AUTH_SERVICE_URL_def)
  with past same expired run show ?thesis by simp
qed

text \<open>
  C4. For a session with a token and an expiry that parses to a time in the future,
  the constructor posts the token to \<open>/user_info\<close>, whatever the service then does;
  when that call raises a transport error, the constructor returns a user without a
  profile whose \<open>authenticated\<close> flag is true, having logged the failure.
\<close>

theorem profile_fetch_transport_failure:
  assumes "session w ''token'' = Some tok"
      and "session w ''expiry'' = Some (PStr s)"
      and "strptime e s = Some t"
      and "now e < t"
  shows "posts (snd (User_init e w)) =
           posts w @ [(AUTH_SERVICE_URL @ ''/user_info'', PDict [(''token'', tok)])]
       \<and> (requests_post e (AUTH_SERVICE_URL @ ''/user_info'') (PDict [(''token'', tok)]) = Raises \<longrightarrow>
            User_init e w =
              (Inr \<lparr>u_token = tok, u_expiry = Some t, u_info = PNone, u_authenticated = True\<rparr>,
               w\<lparr>posts := posts w @ [(AUTH_SERVICE_URL @ ''/user_info'', PDict [(''token'', tok)])],
                 errlog := errlog w @ [Failed_to_retrieve_user_info ConnectionError]\<rparr>))"
proof -
  let ?u = "\<lparr>u_token = tok, u_expiry = Some t, u_info = PNone, u_authenticated = True\<rparr>"
  have init: "User_init e w = get_info e ?u w"
    using assms by (simp add: User_init_def init_finish_def Let_def)
  have fetch: "posts (snd (User_init e w)) =
      posts w @ [(AUTH_SERVICE_URL @ ''/user_info'', PDict [(''token'', tok)])]"
    unfolding init by (simp add: get_info_posts)
  have fail: "get_info e ?u w =
      (Inr ?u, w\<lparr>posts := posts w @ [(AUTH_SERVICE_URL @ ''/user_info'', PDict [(''token'', tok)])],
                 errlog := errlog w @ [Failed_to_retrieve_user_info ConnectionError]\<rparr>)"
    if "requests_post e (AUTH_SERVICE_URL @ ''/user_info'') (PDict [(''token'', tok)]) = Raises"
    using that by (simp add: get_info_def get_info_failed_def Let_def)
  from fetch fail show ?thesis
    unfolding init by blast
qed

theorem profile_fetch_transport_failure_witness:
  "now unreachable_env < 2000
   \<and> requests_post unreachable_env (AUTH_SERVICE_URL @ ''/user_info'')
        (PDict [(''token'', PStr ''abc'')]) = Raises
   \<and> posts (snd (User_init unreachable_env valid_world)) =
        [(''https://auth.luova.club/user_info'', PDict [(''token'', PStr ''abc'')])]
   \<and> fst (User_init unreachable_env valid_world) =
        Inr \<lparr>u_token = PStr ''abc'', u_expiry = Some 2000, u_info = PNone, u_authenticated = True\<rparr>"
proof -
  have tok: "session valid_world ''token'' = Some (PStr ''abc'')"
    and ex: "session valid_world ''expiry'' = Some (PStr ''Sat, 03 Jan 2026 00:00:00 GMT'')"
    and parsed: "strptime unreachable_env ''Sat, 03 Jan 2026 00:00:00 GMT'' = Some 2000"
    and future: "now unreachable_env < 2000"
    by (simp_all add: example_defs)
  have down: "requests_post unreachable_env (AUTH_SERVICE_URL @ ''/user_info'')
        (PDict [(''token'', PStr ''abc'')]) = Raises"
    by (simp add: example_defs)
  have empty: "posts valid_world = []"
    by (simp add: example_defs)
  from profile_fetch_transport_failure [OF tok ex parsed future] down
  have "posts (snd (User_init unreachable_env valid_world)) =
          posts valid_world @ [(AUTH_SERVICE_URL @ ''/user_info'', PDict [(''token'', PStr ''abc'')])]"
    and "fst (User_init unreachable_env valid_world) =
        Inr \<lparr>u_token = PStr ''abc'', u_expiry = Some 2000, u_info = PNone, u_authenticated = True\<rparr>"
    by simp_all
  with empty future down show ?thesis
    by (simp add: AUTH_SERVICE_URL_def)
qed

section \<open>The response validator\<close>

text \<open>
  C5. For a response whose JSON body is a dictionary with
  \<open>status_machine = "INVALID"\<close>, and for either value of \<open>hard_fail\<close>, the constructor
  of \<open>AuthServiceResponse\<close> returns no object: it raises the 401 failure, and the
  session it leaves has lost the key \<open>token\<close> (and gained \<open>modified\<close>).
\<close>

theorem invalid_status_clears_token_and_aborts:
  assumes "body r = Some (PDict kvs)"
      and "map_of kvs ''status_machine'' = Some (PStr ''INVALID'')"
  shows "AuthServiceResponse_init e r hard_fail w =
           (Inl (Unauthorized ''Invalid token. Please log in again.''),
            w\<lparr>session := ((session w)(''token'' := None))(''modified'' \<mapsto> PBool True)\<rparr>)
         \<and> ''token'' \<notin> dom (session (snd (AuthServiceResponse_init e r hard_fail w)))"
  using assms by (simp add: AuthServiceResponse_init_def status_machine_def)

theorem invalid_status_clears_token_and_aborts_witness:
  "session valid_world ''token'' = Some (PStr ''abc'')
   \<and> fst (AuthServiceResponse_init unreachable_env invalid_response True valid_world) =
       Inl (Unauthorized ''Invalid token. Please log in again.'')
   \<and> fst (AuthServiceResponse_init unreachable_env invalid_response False valid_world) =
       Inl (Unauthorized ''Invalid token. Please log in again.'')
   \<and> ''token'' \<notin> dom (session (snd (AuthServiceResponse_init unreachable_env invalid_response
                                        True valid_world)))
   \<and> ''token'' \<notin> dom (session (snd (AuthServiceResponse_init unreachable_env invalid_response
                                        False valid_world)))"
proof -
  have json: "body invalid_response =
      Some (PDict [(''status_machine'', PStr ''INVALID''), (''message'', PStr ''no'')])"
    by (simp add: example_defs)
  have tag: "map_of [(''status_machine'', PStr ''INVALID''), (''message'', PStr ''no'')]
      ''status_machine'' = Some (PStr ''INVALID'')"
    by simp
  have before: "session valid_world ''token'' = Some (PStr ''abc'')"
    by (simp add: example_defs)
  note aborts = invalid_status_clears_token_and_aborts [OF json tag, of unreachable_env]
  from aborts [of True valid_world] aborts [of False valid_world] before
  show ?thesis by simp
qed

text \<open>
  C6. For a response with a status code other than 200 whose JSON body is a dictionary
  with a \<open>status_machine\<close> that is neither \<open>"OK"\<close> nor \<open>"INVALID"\<close>: with
  \<open>hard_fail\<close> the constructor raises an exception carrying the message of the body;
  without it the constructor logs that message and returns the object, and when the
  body has no \<open>user_info\<close> the extraction gives \<open>None\<close>, also through a whole
  \<open>_get_info\<close> that received this response.
\<close>

theorem non_ok_response_hard_fail:
  assumes "status_code r \<noteq> 200"
      and "body r = Some (PDict kvs)"
      and "map_of kvs ''status_machine'' \<noteq> Some (PStr ''OK'')"
      and "map_of kvs ''status_machine'' \<noteq> Some (PStr ''INVALID'')"
      and "m = (case map_of kvs ''message'' of None \<Rightarrow> PStr ''An error occurred.'' | Some x \<Rightarrow> x)"
  shows "AuthServiceResponse_init e r True w = (Inl (PyException m), w)
       \<and> AuthServiceResponse_init e r False w =
           (Inr \<lparr>asr_response = r, asr_json = PDict kvs\<rparr>,
            w\<lparr>errlog := errlog w @ [An_error_occurred m]\<rparr>)
       \<and> (map_of kvs ''user_info'' = None \<longrightarrow>
            user_info_of \<lparr>asr_response = r, asr_json = PDict kvs\<rparr> = Inr PNone
            \<and> (requests_post e (AUTH_SERVICE_URL @ ''/user_info'') (PDict [(''token'', u_token u)])
                 = Responds r \<longrightarrow>
               fst (get_info e u w) = Inr (u\<lparr>u_info := PNone\<rparr>)))"
proof -
  have sm: "\<exists>x. status_machine e (PDict kvs) = Inr x \<and> x \<noteq> Val (PStr ''INVALID'')
                \<and> x \<noteq> Val (PStr ''OK'')"
    using assms(3,4) by (auto simp add: status_machine_def split: option.splits)
  have msg: "message (PDict kvs) = Inr m"
    using assms(5) by (simp add: message_def split: option.splits)
  have hard: "AuthServiceResponse_init e r True w = (Inl (PyException m), w)" for w
    using assms(1,2) sm msg by (auto simp add: AuthServiceResponse_init_def)
  have soft: "AuthServiceResponse_init e r False w =
           (Inr \<lparr>asr_response = r, asr_json = PDict kvs\<rparr>,
            w\<lparr>errlog := errlog w @ [An_error_occurred m]\<rparr>)" for w
    using assms(1,2) sm msg by (auto simp add: AuthServiceResponse_init_def)
  have absent: "user_info_of \<lparr>asr_response = r, asr_json = PDict kvs\<rparr> = Inr PNone"
    if "map_of kvs ''user_info'' = None"
    using that by (simp add: user_info_of_def)
  have fetch: "fst (get_info e u w) = Inr (u\<lparr>u_info := PNone\<rparr>)"
    if "map_of kvs ''user_info'' = None"
      and "requests_post e (AUTH_SERVICE_URL @ ''/user_info'') (PDict [(''token'', u_token u)])
             = Responds r"
    using that soft absent by (simp add: get_info_def get_info_failed_def Let_def)
  from hard soft absent fetch show ?thesis by blast
qed

theorem non_ok_response_hard_fail_witness:
  "status_code error_response = 500
   \<and> AuthServiceResponse_init (answering_env error_response) error_response True valid_world =
       (Inl (PyException (PStr ''boom'')), valid_world)
   \<and> AuthServiceResponse_init (answering_env error_response) error_response False valid_world =
       (Inr \<lparr>asr_response = error_response,
             asr_json = PDict [(''status_machine'', PStr ''ERROR''), (''message'', PStr ''boom'')]\<rparr>,
        valid_world\<lparr>errlog := [An_error_occurred (PStr ''boom'')]\<rparr>)
   \<and> user_info_of \<lparr>asr_response = error_response,
         asr_json = PDict [(''status_machine'', PStr ''ERROR''), (''message'', PStr ''boom'')]\<rparr>
       = Inr PNone
   \<and> fst (get_info (answering_env error_response)
            \<lparr>u_token = PStr ''abc'', u_expiry = None, u_info = PDict [(''role'', PInt 3)],
             u_authenticated = True\<rparr> valid_world) =
       Inr \<lparr>u_token = PStr ''abc'', u_expiry = None, u_info = PNone, u_authenticated = True\<rparr>"
proof -
  let ?kvs = "[(''status_machine'', PStr ''ERROR''), (''message'', PStr ''boom'')]"
  let ?u = "\<lparr>u_token = PStr ''abc'', u_expiry = None, u_info = PDict [(''role'', PInt 3)],
             u_authenticated = True\<rparr>"
  have code: "status_code error_response \<noteq> 200" and code': "status_code error_response = 500"
    by (simp_all add: example_defs)
  have json: "body error_response = Some (PDict ?kvs)"
    by (simp add: example_defs)
  have not_ok: "map_of ?kvs ''status_machine'' \<noteq> Some (PStr ''OK'')"
    and not_invalid: "map_of ?kvs ''status_machine'' \<noteq> Some (PStr ''INVALID'')"
    and msg: "PStr ''boom'' =
      (case map_of ?kvs ''message'' of None \<Rightarrow> PStr ''An error occurred.'' | Some x \<Rightarrow> x)"
    and no_info: "map_of ?kvs ''user_info'' = None"
    by simp_all
  have quiet: "errlog valid_world = []"
    by (simp add: example_defs)
  have answer: "requests_post (answering_env error_response) (AUTH_SERVICE_URL @ ''/user_info'')
      (PDict [(''token'', u_token ?u)]) = Responds error_response"
    by (simp add: example_defs)
  from non_ok_response_hard_fail [OF code json not_ok not_invalid msg,
      of "answering_env error_response" valid_world ?u] no_info quiet code' answer
  show ?thesis by simp
qed

text \<open>
  C8, as stated: the accessor \<open>status_machine\<close> maps the field into the four tags
  \<open>OK\<close>, \<open>TOKEN_EXPIRED\<close>, \<open>INVALID\<close>, \<open>ERROR\<close>. A field with another value comes
  back as it is: nothing maps it.
\<close>

theorem status_machine_unmapped_value:
  "status_machine unreachable_env (PDict [(''status_machine'', PStr ''FOO'')]) =
     Inr (Val (PStr ''FOO''))
   \<and> PStr ''FOO'' \<notin> {PStr ''OK'', PStr ''TOKEN_EXPIRED'', PStr ''INVALID'', PStr ''ERROR''}"
  by (simp add: status_machine_def)

text \<open>
  C8, amended: for a JSON dictionary whose \<open>status_machine\<close> is not
  \<open>"TOKEN_EXPIRED"\<close>, the accessor yields the string \<open>"ERROR"\<close> when the field is
  absent and the value of the field, unchanged, when it is present.
\<close>

theorem status_machine_field_passthrough:
  assumes "map_of kvs ''status_machine'' \<noteq> Some (PStr ''TOKEN_EXPIRED'')"
  shows "status_machine e (PDict kvs) =
           Inr (Val (case map_of kvs ''status_machine'' of
                       None \<Rightarrow> PStr ''ERROR''
                     | Some v \<Rightarrow> v))"
  using assms by (simp add: status_machine_def split: option.splits)

theorem status_machine_field_passthrough_witness:
  "status_machine unreachable_env (PDict [(''message'', PStr ''hello'')]) =
     Inr (Val (PStr ''ERROR''))
   \<and> status_machine unreachable_env (PDict [(''status_machine'', PStr ''OK'')]) =
     Inr (Val (PStr ''OK''))"
proof -
  have absent: "map_of [(''message'', PStr ''hello'')] ''status_machine''
      \<noteq> Some (PStr ''TOKEN_EXPIRED'')"
    and ok: "map_of [(''status_machine'', PStr ''OK'')] ''status_machine''
      \<noteq> Some (PStr ''TOKEN_EXPIRED'')"
    by simp_all
  from status_machine_field_passthrough [OF absent, of unreachable_env]
    status_machine_field_passthrough [OF ok, of unreachable_env]
  show ?thesis by simp
qed

section \<open>is_authenticated and the role guard\<close>

text \<open>
  C10. In a request context \<open>is_authenticated\<close> answers false when the session's
  \<open>logged_in\<close> is absent (or \<open>None\<close>), writing \<open>logged_in = False\<close> (and
  \<open>modified\<close>) into the session, and when it is \<open>False\<close>, with the session
  untouched: the internal flag plays no part. With \<open>logged_in = True\<close>, and
  outside a request context, the answer is the internal flag. In a request context
  the answer is true only over a \<open>logged_in\<close> that is present, not \<open>None\<close> and not
  equal to \<open>False\<close>.
\<close>

theorem is_authenticated_session_gate:
  "(has_request_context e
      \<and> (session w ''logged_in'' = None \<or> session w ''logged_in'' = Some PNone) \<longrightarrow>
      is_authenticated e u w =
        (Inr False,
         w\<lparr>session := ((session w)(''logged_in'' \<mapsto> PBool False))(''modified'' \<mapsto> PBool True)\<rparr>))
   \<and> (has_request_context e \<and> session w ''logged_in'' = Some (PBool False) \<longrightarrow>
        is_authenticated e u w = (Inr False, w))
   \<and> (has_request_context e \<and> session w ''logged_in'' = Some (PBool True) \<longrightarrow>
        is_authenticated e u w = (Inr (u_authenticated u), w))
   \<and> (\<not> has_request_context e \<longrightarrow> is_authenticated e u w = (Inr (u_authenticated u), w))
   \<and> (has_request_context e \<and> fst (is_authenticated e u w) = Inr True \<longrightarrow>
        u_authenticated u \<and>
        (\<exists>v. session w ''logged_in'' = Some v \<and> v \<noteq> PNone \<and> \<not> eq_False v))"
  by (auto simp add: is_authenticated_def Let_def split: option.splits if_splits)

theorem is_authenticated_session_gate_witness:
  "is_authenticated unreachable_env
     \<lparr>u_token = PStr ''abc'', u_expiry = None, u_info = PNone, u_authenticated = True\<rparr>
     (world_of [(''token'', PStr ''abc'')]) =
     (Inr False,
      (world_of [(''token'', PStr ''abc'')])
        \<lparr>session := ((map_of [(''token'', PStr ''abc'')])(''logged_in'' \<mapsto> PBool False))
                       (''modified'' \<mapsto> PBool True)\<rparr>)
   \<and> is_authenticated unreachable_env
     \<lparr>u_token = PStr ''abc'', u_expiry = None, u_info = PNone, u_authenticated = True\<rparr>
     (world_of [(''token'', PStr ''abc''), (''logged_in'', PBool False)]) =
     (Inr False, world_of [(''token'', PStr ''abc''), (''logged_in'', PBool False)])
   \<and> is_authenticated unreachable_env
     \<lparr>u_token = PStr ''abc'', u_expiry = None, u_info = PNone, u_authenticated = True\<rparr>
     valid_world = (Inr True, valid_world)
   \<and> is_authenticated (unreachable_env\<lparr>has_request_context := False\<rparr>)
     \<lparr>u_token = PStr ''abc'', u_expiry = None, u_info = PNone, u_authenticated = True\<rparr>
     (world_of [(''token'', PStr ''abc''), (''logged_in'', PBool False)]) =
     (Inr True, world_of [(''token'', PStr ''abc''), (''logged_in'', PBool False)])
   \<and> session valid_world ''logged_in'' = Some (PBool True)"
proof -
  let ?u = "\<lparr>u_token = PStr ''abc'', u_expiry = None, u_info = PNone, u_authenticated = True\<rparr>"
  let ?absent = "world_of [(''token'', PStr ''abc'')]"
  let ?off = "world_of [(''token'', PStr ''abc''), (''logged_in'', PBool False)]"
  have ctx: "has_request_context unreachable_env"
    and no_ctx: "\<not> has_request_context (unreachable_env\<lparr>has_request_context := False\<rparr>)"
    by (simp_all add: example_defs)
  have absent: "session ?absent ''logged_in'' = None"
    and is_off: "session ?off ''logged_in'' = Some (PBool False)"
    and is_on: "session valid_world ''logged_in'' = Some (PBool True)"
    and same: "session ?absent = map_of [(''token'', PStr ''abc'')]"
    by (simp_all add: example_defs)
  from is_authenticated_session_gate [of unreachable_env ?absent ?u] ctx absent
  have first: "is_authenticated unreachable_env ?u ?absent =
      (Inr False,
       ?absent\<lparr>session := ((session ?absent)(''logged_in'' \<mapsto> PBool False))
                              (''modified'' \<mapsto> PBool True)\<rparr>)"
    by blast
  from is_authenticated_session_gate [of unreachable_env ?off ?u] ctx is_off
  have second: "is_authenticated unreachable_env ?u ?off = (Inr False, ?off)"
    by blast
  from is_authenticated_session_gate [of unreachable_env valid_world ?u] ctx is_on
  have "is_authenticated unreachable_env ?u valid_world = (Inr (u_authenticated ?u), valid_world)"
    by blast
  then have third: "is_authenticated unreachable_env ?u valid_world = (Inr True, valid_world)"
    by simp
  from is_authenticated_session_gate
    [of "unreachable_env\<lparr>has_request_context := False\<rparr>" ?off ?u] no_ctx
  have "is_authenticated (unreachable_env\<lparr>has_request_context := False\<rparr>) ?u ?off =
      (Inr (u_authenticated ?u), ?off)"
    by blast
  then have fourth: "is_authenticated (unreachable_env\<lparr>has_request_context := False\<rparr>) ?u ?off =
      (Inr True, ?off)"
    by simp
  from first second third fourth is_on show ?thesis
    unfolding same by blast
qed

text \<open>
  C7. The wrapper of \<open>role_required(min_role)\<close> calls the handler exactly when the
  constructed user passes \<open>is_authenticated\<close>, has a role that is not \<open>None\<close>, and
  \<open>int(role)\<close> is defined and at least \<open>min_role\<close>. A user that does not pass
  \<open>is_authenticated\<close> is redirected to \<open>login\<close> with \<open>next\<close> set to the requested
  URL. Under \<open>role_required(3)\<close> an authenticated user of role 2 is refused, by the
  403 failure carrying the required level and the role, or by a redirect to the
  fallback endpoint when one is configured; one of role 3 or 4 reaches the handler.
\<close>

theorem role_required_gate:
  "(fst (role_required e min_role redirect_to w) = Inr Call_func \<longleftrightarrow>
      (\<exists>u w1 w2 r n. User_init e w = (Inr u, w1) \<and> is_authenticated e u w1 = (Inr True, w2)
          \<and> role u = Inr r \<and> r \<noteq> PNone \<and> py_int e r = Inr n \<and> min_role \<le> n))
   \<and> (\<forall>u w1 w2. User_init e w = (Inr u, w1) \<and> is_authenticated e u w1 = (Inr False, w2) \<longrightarrow>
         role_required e min_role redirect_to w =
           (Inr (Redirected (login_redirect (request_url e))), w2))
   \<and> (\<forall>u w1 w2 r. User_init e w = (Inr u, w1) \<and> is_authenticated e u w1 = (Inr True, w2)
          \<and> role u = Inr r \<and> py_int e r = Inr 2 \<longrightarrow>
         role_required e 3 None w = (Inl (Forbidden 3 r), w2)
         \<and> (\<forall>endpoint. role_required e 3 (Some endpoint) w =
               (Inr (Redirected (Redirect endpoint [])), w2)))
   \<and> (\<forall>u w1 w2 r k. User_init e w = (Inr u, w1) \<and> is_authenticated e u w1 = (Inr True, w2)
          \<and> role u = Inr r \<and> py_int e r = Inr k \<and> (k = 3 \<or> k = 4) \<longrightarrow>
         role_required e 3 redirect_to w = (Inr Call_func, w2))"
proof -
  have not_none: "r \<noteq> PNone" if "py_int e r = Inr k" for r k
    using that by (cases r) auto
  have iff: "fst (role_required e min_role redirect_to w) = Inr Call_func \<longleftrightarrow>
      (\<exists>u w1 w2 r n. User_init e w = (Inr u, w1) \<and> is_authenticated e u w1 = (Inr True, w2)
          \<and> role u = Inr r \<and> r \<noteq> PNone \<and> py_int e r = Inr n \<and> min_role \<le> n)"
    by (auto simp add: role_required_def role_denied_def
        split: prod.splits sum.splits bool.splits option.splits if_splits)
  have unauth: "role_required e min_role redirect_to w =
           (Inr (Redirected (login_redirect (request_url e))), w2)"
    if "User_init e w = (Inr u, w1)" "is_authenticated e u w1 = (Inr False, w2)" for u w1 w2
    using that by (simp add: role_required_def)
  have deny: "role_required e 3 None w = (Inl (Forbidden 3 r), w2)
         \<and> (\<forall>endpoint. role_required e 3 (Some endpoint) w =
               (Inr (Redirected (Redirect endpoint [])), w2))"
    if "User_init e w = (Inr u, w1)" "is_authenticated e u w1 = (Inr True, w2)"
       "role u = Inr r" "py_int e r = Inr 2" for u w1 w2 r
    using that not_none[OF that(4)] by (simp add: role_required_def role_denied_def)
  have allow: "role_required e 3 redirect_to w = (Inr Call_func, w2)"
    if "User_init e w = (Inr u, w1)" "is_authenticated e u w1 = (Inr True, w2)"
       "role u = Inr r" "py_int e r = Inr k" "k = 3 \<or> k = 4" for u w1 w2 r k
    using that not_none[OF that(4)] by (auto simp add: role_required_def)
  from iff unauth deny allow show ?thesis by blast
qed

theorem role_required_gate_witness:
  "fst (role_required (answering_env (profile_response 2)) 3 None valid_world) =
     Inl (Forbidden 3 (PInt 2))
   \<and> fst (role_required (answering_env (profile_response 2)) 3 (Some ''home'') valid_world) =
     Inr (Redirected (Redirect ''home'' []))
   \<and> fst (role_required (answering_env (profile_response 3)) 3 None valid_world) = Inr Call_func
   \<and> fst (role_required (answering_env (profile_response 4)) 3 None valid_world) = Inr Call_func
   \<and> fst (role_required unreachable_env 3 None (world_of [])) =
     Inr (Redirected (Redirect ''login'' [(''next'', ''/secret'')]))"
proof -
  let ?e = "\<lambda>k. answering_env (profile_response k)"
  let ?u = "\<lambda>k. \<lparr>u_token = PStr ''abc'', u_expiry = Some 2000,
                   u_info = PDict [(''username'', PStr ''a''), (''role'', PInt k)],
                   u_authenticated = True\<rparr>"
  let ?w = "valid_world\<lparr>posts := [(''https://auth.luova.club/user_info'',
                                     PDict [(''token'', PStr ''abc'')])]\<rparr>"
  let ?anon = "\<lparr>u_token = PNone, u_expiry = None, u_info = PNone, u_authenticated = False\<rparr>"
  let ?after = "(world_of [])\<lparr>session := [''logged_in'' \<mapsto> PBool False, ''modified'' \<mapsto> PBool True]\<rparr>"
  have run: "User_init (?e k) valid_world = (Inr (?u k), ?w)" for k
    by (simp add: user_defs example_defs)
  have auth: "is_authenticated (?e k) (?u k) ?w = (Inr True, ?w)" for k
    by (simp add: is_authenticated_def example_defs)
  have level: "role (?u k) = Inr (PInt k)" and num: "py_int (?e k) (PInt k) = Inr k" for k
    by (simp_all add: role_def)
  have run0: "User_init unreachable_env (world_of []) = (Inr ?anon, world_of [])"
    by (simp add: user_defs example_defs)
  have auth0: "is_authenticated unreachable_env ?anon (world_of []) = (Inr False, ?after)"
    by (simp add: is_authenticated_def example_defs)
  have url: "login_redirect (request_url unreachable_env) = Redirect ''login'' [(''next'', ''/secret'')]"
    by (simp add: login_redirect_def example_defs)
  from role_required_gate [of "?e 2" 3 None valid_world] run [of 2] auth [of 2] level [of 2] num [of 2]
  have refused: "role_required (?e 2) 3 None valid_world = (Inl (Forbidden 3 (PInt 2)), ?w)"
    and fallback: "role_required (?e 2) 3 (Some ''home'') valid_world =
      (Inr (Redirected (Redirect ''home'' [])), ?w)"
    by blast+
  from role_required_gate [of "?e 3" 3 None valid_world] run [of 3] auth [of 3] level [of 3] num [of 3]
  have three: "role_required (?e 3) 3 None valid_world = (Inr Call_func, ?w)"
    by blast
  from role_required_gate [of "?e 4" 3 None valid_world] run [of 4] auth [of 4] level [of 4] num [of 4]
  have four: "role_required (?e 4) 3 None valid_world = (Inr Call_func, ?w)"
    by blast
  from role_required_gate [of unreachable_env 3 None "world_of []"] run0 auth0
  have anon: "role_required unreachable_env 3 None (world_of []) =
      (Inr (Redirected (login_redirect (request_url unreachable_env))), ?after)"
    by blast
  from refused fallback three four anon url show ?thesis by simp
qed

section \<open>The logout route\<close>

text \<open>
  When the token is truthy and the call to \<open>/logout\<close> of the service succeeds, the
  route empties the session, writes \<open>token = None\<close>, \<open>logged_in = False\<close> and
  \<open>modified\<close>, and resets the fields of the cached user.
\<close>

lemma logout_clears_after_successful_call:
  assumes "has_request_context e"
      and "session w ''token'' = Some tok" and "truthy tok"
      and "g_user w = Some u"
      and "requests_post e (url @ ''/logout'') (PDict [(''token'', tok)]) = Responds r"
      and "\<not> raise_for_status r"
  shows "logout e url w =
           (Inr (Redirect ''index'' []),
            w\<lparr>posts := posts w @ [(url @ ''/logout'', PDict [(''token'', tok)])],
              session := [''token'' \<mapsto> PNone, ''logged_in'' \<mapsto> PBool False,
                          ''modified'' \<mapsto> PBool True],
              g_user := Some \<lparr>u_token = PNone, u_expiry = None, u_info = PNone,
                              u_authenticated = False\<rparr>\<rparr>)"
  using assms by (simp add: logout_def logout_clear_def get_user_def Let_def)

text \<open>
  C9. The claim: the route clears the session and resets the user whether or not the
  external logout call succeeds. The clearing code stands inside the \<open>try\<close>, after
  the call: when the service is unreachable the handler prints the error and the
  route redirects to \<open>index\<close> with the session (token, \<open>logged_in\<close>) and the cached
  user exactly as they were.
\<close>

theorem logout_failed_call_keeps_session:
  "logout unreachable_env AUTH_SERVICE_URL logged_in_world =
     (Inr (Redirect ''index'' []),
      logged_in_world\<lparr>posts := [(''https://auth.luova.club/logout'',
                                  PDict [(''token'', PStr ''abc'')])]\<rparr>)"
  by (simp add: logout_def logout_except_def Let_def AUTH_SERVICE_URL_def example_defs)

end
